theory Spec2Isabelle
  imports Main "HOL-Library.Multiset"
begin

section \<open>Python values and exceptions\<close>

text \<open>
  The adapters in \<^verbatim>\<open>services/\<close> decode JSON and hand dictionaries to the scheduler.
  A decoded JSON document is a value of \<open>pyval\<close>; a dictionary is an association list
  whose first binding of a key is the dictionary's value for it. JSON numbers are
  integers here (no floating point).
\<close>

datatype pyval =
    PNone
  | PBool bool
  | PInt int
  | PStr string
  | PList "pyval list"
  | PDict "(string \<times> pyval) list"

text \<open>
  The exception classes that matter to the \<^verbatim>\<open>except\<close> clauses of the source, and an
  exception value carrying the text that \<^verbatim>\<open>str(e)\<close> yields.
\<close>

datatype exc_class =
    RequestException
  | KeyError
  | ValueError
  | IndexError
  | TypeError
  | AttributeError
  | OverflowError
  | DatabaseError

datatype py_exception = PyExc exc_class string

fun exc_class_of :: "py_exception \<Rightarrow> exc_class" where
  "exc_class_of (PyExc c m) = c"

fun str_of_exc :: "py_exception \<Rightarrow> string" where
  "str_of_exc (PyExc c m) = m"

section \<open>Data model (models.py)\<close>

text \<open>
  \<^verbatim>\<open>Student\<close>: the primary key and the three optional platform handles are the columns
  the collection pipeline reads. The primary key \<^verbatim>\<open>id\<close> is named \<open>stu_id\<close>.
\<close>

record Student =
  stu_id :: int
  cf_handle :: "string option"
  lc_username :: "string option"
  cc_username :: "string option"

text \<open>
  \<^verbatim>\<open>StatsSnapshot\<close>: one row of \<^verbatim>\<open>stats_snapshots\<close>. The primary key \<^verbatim>\<open>id\<close> is named
  \<open>snap_id\<close>. The nullable integer columns hold a \<open>pyval\<close> (\<open>PNone\<close> is NULL), since the
  scheduler stores whatever \<^verbatim>\<open>data.get(...)\<close> returns. \<open>timestamp\<close> is a \<^verbatim>\<open>datetime\<close>,
  counted in microseconds since \<^verbatim>\<open>datetime.min\<close> (0001-01-01 00:00:00).
\<close>

record StatsSnapshot =
  snap_id :: nat
  student_id :: int
  platform :: string
  rating :: pyval
  max_rating :: pyval
  solved :: pyval
  easy :: pyval
  medium :: pyval
  hard :: pyval
  timestamp :: int
  fetch_status :: string
  error_message :: "string option"

subsection \<open>Read path: latest stats and history\<close>

text \<open>
  \<^verbatim>\<open>Student.stats_snapshots\<close> is the relationship on \<^verbatim>\<open>student_id\<close>: the rows of the table
  that belong to the student.
\<close>

definition stats_snapshots_of :: "Student \<Rightarrow> StatsSnapshot list \<Rightarrow> StatsSnapshot list" where
  "stats_snapshots_of s tbl = filter (\<lambda>r. student_id r = stu_id s) tbl"

text \<open>\<^verbatim>\<open>Query.first()\<close>: the first row of the result, or None.\<close>

definition first_row :: "'a list \<Rightarrow> 'a option" where
  "first_row xs = (case xs of [] \<Rightarrow> None | x # _ \<Rightarrow> Some x)"

text \<open>
  \<^verbatim>\<open>order_by(StatsSnapshot.timestamp.desc())\<close> and \<^verbatim>\<open>.asc()\<close>. SQL leaves the order of rows
  with equal timestamps open; the model keeps them in a fixed order.
\<close>

definition order_by_timestamp_asc :: "StatsSnapshot list \<Rightarrow> StatsSnapshot list" where
  "order_by_timestamp_asc rows = sort_key timestamp rows"

definition order_by_timestamp_desc :: "StatsSnapshot list \<Rightarrow> StatsSnapshot list" where
  "order_by_timestamp_desc rows = rev (sort_key timestamp rows)"

text \<open>
  \<^verbatim>\<open>
  def get_latest_stats(self, platform):
      return self.stats_snapshots.filter_by(platform=platform)
                 .order_by(StatsSnapshot.timestamp.desc()).first()
  \<close>
\<close>

definition get_latest_stats :: "StatsSnapshot list \<Rightarrow> Student \<Rightarrow> string \<Rightarrow> StatsSnapshot option" where
  "get_latest_stats tbl s p =
     first_row (order_by_timestamp_desc (filter (\<lambda>r. platform r = p) (stats_snapshots_of s tbl)))"

text \<open>
  \<^verbatim>\<open>timedelta(days=days)\<close> raises OverflowError when the magnitude of \<open>days\<close> exceeds
  999999999; \<^verbatim>\<open>datetime - timedelta\<close> raises OverflowError when the result leaves
  \<^verbatim>\<open>datetime.min .. datetime.max\<close> (years 1 to 9999).
\<close>

definition us_per_day :: int where
  "us_per_day = 86400000000"

definition datetime_max :: int where
  "datetime_max = 3652059 * us_per_day - 1"

definition timedelta_days :: "int \<Rightarrow> py_exception + int" where
  "timedelta_days days =
     (if \<bar>days\<bar> > 999999999
      then Inl (PyExc OverflowError ''days; must have magnitude <= 999999999'')
      else Inr (days * us_per_day))"

definition datetime_sub :: "int \<Rightarrow> int \<Rightarrow> py_exception + int" where
  "datetime_sub t delta =
     (if t - delta < 0 \<or> datetime_max < t - delta
      then Inl (PyExc OverflowError ''date value out of range'')
      else Inr (t - delta))"

text \<open>
  \<^verbatim>\<open>
  def get_stats_history(self, platform, days=30):
      cutoff = datetime.utcnow() - timedelta(days=days)
      return self.stats_snapshots.filter(
          StatsSnapshot.platform == platform,
          StatsSnapshot.timestamp >= cutoff
      ).order_by(StatsSnapshot.timestamp.asc()).all()
  \<close>
  \<open>now\<close> is the reading of \<^verbatim>\<open>datetime.utcnow()\<close>.
\<close>

definition get_stats_history ::
  "StatsSnapshot list \<Rightarrow> int \<Rightarrow> Student \<Rightarrow> string \<Rightarrow> int \<Rightarrow> py_exception + StatsSnapshot list" where
  "get_stats_history tbl now s p days =
     (case timedelta_days days of
        Inl e \<Rightarrow> Inl e
      | Inr delta \<Rightarrow>
          (case datetime_sub now delta of
             Inl e \<Rightarrow> Inl e
           | Inr cutoff \<Rightarrow>
               Inr (order_by_timestamp_asc
                      (filter (\<lambda>r. platform r = p \<and> cutoff \<le> timestamp r)
                         (stats_snapshots_of s tbl)))))"

section \<open>The collection pipeline (scheduler.py)\<close>

subsection \<open>Environment and state\<close>

text \<open>
  What an adapter returns to the scheduler: a dictionary, None, or an exception that
  escapes the adapter. A dictionary is an association list of its items.
\<close>

type_synonym payload = "(string \<times> pyval) list"

type_synonym adapter_result = "py_exception + payload option"

text \<open>
  \<^verbatim>\<open>db.session.commit()\<close> either stores the pending row, whose \<^verbatim>\<open>timestamp\<close> default
  \<^verbatim>\<open>datetime.utcnow\<close> is evaluated at that moment, or raises.
\<close>

datatype commit_result = Committed int | CommitFailed py_exception

text \<open>
  The network and the database are the environment of a run. \<open>adapter env tag h n\<close> is
  what the adapter of platform \<open>tag\<close> yields for handle \<open>h\<close> when it is the \<open>n\<close>-th
  adapter call of the process; \<open>db_commit env n\<close> is the outcome of the \<open>n\<close>-th commit.
\<close>

record environment =
  adapter :: "string \<Rightarrow> string option \<Rightarrow> nat \<Rightarrow> adapter_result"
  db_commit :: "nat \<Rightarrow> commit_result"

text \<open>
  Observable steps of a run. \<open>RetryDelay\<close> is the \<^verbatim>\<open>time.sleep(2)\<close> of a retry loop,
  \<open>BatchDelay\<close> the \<^verbatim>\<open>time.sleep(2)\<close> between batches, \<open>BatchStart\<close> the start of a batch
  with the ids of its students.
\<close>

datatype event =
    AdapterCall string "string option"
  | RetryDelay nat
  | BatchStart "int list"
  | BatchDelay nat

text \<open>
  The state the scheduler works on: whether \<^verbatim>\<open>self.app\<close> is set, the two tables, the log
  of observable steps, and the numbers of adapter calls and commits made so far.
\<close>

record world =
  app :: bool
  students :: "Student list"
  stats_snapshots :: "StatsSnapshot list"
  events :: "event list"
  api_calls :: nat
  commits :: nat

datatype platform_tag = CF | LC | CC

fun tag :: "platform_tag \<Rightarrow> string" where
  "tag CF = ''CF''"
| "tag LC = ''LC''"
| "tag CC = ''CC''"

fun handle_of :: "platform_tag \<Rightarrow> Student \<Rightarrow> string option" where
  "handle_of CF s = cf_handle s"
| "handle_of LC s = lc_username s"
| "handle_of CC s = cc_username s"

text \<open>Truth value of a handle column (\<^verbatim>\<open>if student.cf_handle:\<close>): None and '' are false.\<close>

fun handle_truthy :: "string option \<Rightarrow> bool" where
  "handle_truthy None = False"
| "handle_truthy (Some h) = (h \<noteq> [])"

text \<open>Truth value of an adapter's return value (\<^verbatim>\<open>if data:\<close>): None and {} are false.\<close>

fun data_truthy :: "payload option \<Rightarrow> bool" where
  "data_truthy None = False"
| "data_truthy (Some d) = (d \<noteq> [])"

text \<open>\<^verbatim>\<open>data.get(key, default)\<close>\<close>

definition dict_get :: "payload \<Rightarrow> string \<Rightarrow> pyval \<Rightarrow> pyval" where
  "dict_get d k dflt = (case map_of d k of None \<Rightarrow> dflt | Some v \<Rightarrow> v)"

subsection \<open>Snapshot store\<close>

text \<open>The next value of the autoincrement primary key.\<close>

definition next_snap_id :: "StatsSnapshot list \<Rightarrow> nat" where
  "next_snap_id tbl = Suc (fold max (map snap_id tbl) 0)"

text \<open>
  \<^verbatim>\<open>db.session.add(snapshot); db.session.commit()\<close>: on success the row is appended with
  its key and timestamp; on failure the exception is returned and no row is stored.
\<close>

definition add_and_commit ::
  "environment \<Rightarrow> StatsSnapshot \<Rightarrow> world \<Rightarrow> py_exception option \<times> world" where
  "add_and_commit env snapshot w =
     (case db_commit env (commits w) of
        Committed ts \<Rightarrow>
          (None,
           w\<lparr>stats_snapshots :=
                stats_snapshots w @
                  [snapshot\<lparr>snap_id := next_snap_id (stats_snapshots w), timestamp := ts\<rparr>],
             commits := Suc (commits w)\<rparr>)
      | CommitFailed e \<Rightarrow> (Some e, w\<lparr>commits := Suc (commits w)\<rparr>))"

text \<open>\<^verbatim>\<open>db.session.rollback()\<close> discards the pending row, which the table never held.\<close>

definition session_rollback :: "world \<Rightarrow> world" where
  "session_rollback w = w"

text \<open>
  The rows the scheduler constructs. Columns it does not pass keep their defaults
  (NULL). \<open>snap_id\<close> and \<open>timestamp\<close> are set by the commit.
  \<^verbatim>\<open>
  StatsSnapshot(student_id=student.id, platform='CF', rating=data.get('rating', 0),
      max_rating=data.get('max_rating', 0), solved=data.get('solved', 0),
      fetch_status='success')
  StatsSnapshot(student_id=student.id, platform='LC', rating=None,
      solved=data.get('total_solved', 0), easy=data.get('easy', 0),
      medium=data.get('medium', 0), hard=data.get('hard', 0), fetch_status='success')
  StatsSnapshot(student_id=student.id, platform='CC', rating=data.get('rating', 0),
      solved=data.get('solved', 0), fetch_status='success')
  \<close>
\<close>

fun success_snapshot :: "platform_tag \<Rightarrow> int \<Rightarrow> payload \<Rightarrow> StatsSnapshot" where
  "success_snapshot CF sid data =
     \<lparr>snap_id = 0, student_id = sid, platform = ''CF'',
      rating = dict_get data ''rating'' (PInt 0),
      max_rating = dict_get data ''max_rating'' (PInt 0),
      solved = dict_get data ''solved'' (PInt 0),
      easy = PNone, medium = PNone, hard = PNone,
      timestamp = 0, fetch_status = ''success'', error_message = None\<rparr>"
| "success_snapshot LC sid data =
     \<lparr>snap_id = 0, student_id = sid, platform = ''LC'',
      rating = PNone,
      max_rating = PNone,
      solved = dict_get data ''total_solved'' (PInt 0),
      easy = dict_get data ''easy'' (PInt 0),
      medium = dict_get data ''medium'' (PInt 0),
      hard = dict_get data ''hard'' (PInt 0),
      timestamp = 0, fetch_status = ''success'', error_message = None\<rparr>"
| "success_snapshot CC sid data =
     \<lparr>snap_id = 0, student_id = sid, platform = ''CC'',
      rating = dict_get data ''rating'' (PInt 0),
      max_rating = PNone,
      solved = dict_get data ''solved'' (PInt 0),
      easy = PNone, medium = PNone, hard = PNone,
      timestamp = 0, fetch_status = ''success'', error_message = None\<rparr>"

text \<open>
  \<^verbatim>\<open>
  StatsSnapshot(student_id=student_id, platform=platform, fetch_status='failed',
      error_message=error_message, solved=0)
  \<close>
\<close>

definition failed_snapshot :: "int \<Rightarrow> string \<Rightarrow> string \<Rightarrow> StatsSnapshot" where
  "failed_snapshot sid p msg =
     \<lparr>snap_id = 0, student_id = sid, platform = p,
      rating = PNone, max_rating = PNone, solved = PInt 0,
      easy = PNone, medium = PNone, hard = PNone,
      timestamp = 0, fetch_status = ''failed'', error_message = Some msg\<rparr>"

text \<open>
  \<^verbatim>\<open>
  def _save_failed_snapshot(self, student_id, platform, error_message):
      try:
          snapshot = StatsSnapshot(...)
          db.session.add(snapshot)
          db.session.commit()
      except Exception as e:
          print(f"Error saving failed snapshot: {e}")
          db.session.rollback()
  \<close>
\<close>

definition save_failed_snapshot :: "environment \<Rightarrow> int \<Rightarrow> string \<Rightarrow> string \<Rightarrow> world \<Rightarrow> world" where
  "save_failed_snapshot env sid p msg w =
     (case add_and_commit env (failed_snapshot sid p msg) w of
        (None, w') \<Rightarrow> w'
      | (Some e, w') \<Rightarrow> session_rollback w')"

subsection \<open>Retry loop\<close>

definition max_retries :: nat where
  "max_retries = 3"

definition call_adapter ::
  "environment \<Rightarrow> platform_tag \<Rightarrow> string option \<Rightarrow> world \<Rightarrow> adapter_result \<times> world" where
  "call_adapter env p h w =
     (adapter env (tag p) h (api_calls w),
      w\<lparr>events := events w @ [AdapterCall (tag p) h], api_calls := Suc (api_calls w)\<rparr>)"

definition time_sleep_retry :: "world \<Rightarrow> world" where
  "time_sleep_retry w = w\<lparr>events := events w @ [RetryDelay 2]\<rparr>"

text \<open>
  What both failure paths of an attempt do (the \<^verbatim>\<open>else\<close> branch with the text
  'Failed to fetch data', the \<^verbatim>\<open>except\<close> branch with \<^verbatim>\<open>str(e)\<close>):
  \<^verbatim>\<open>
  if attempt < max_retries - 1:
      time.sleep(2)
      continue
  self._save_failed_snapshot(student.id, 'CF', msg)
  \<close>
\<close>

definition after_failed_attempt ::
  "environment \<Rightarrow> platform_tag \<Rightarrow> Student \<Rightarrow> nat \<Rightarrow> string \<Rightarrow> world \<Rightarrow> world" where
  "after_failed_attempt env p student attempt msg w =
     (if attempt < max_retries - 1 then time_sleep_retry w
      else save_failed_snapshot env (stu_id student) (tag p) msg w)"

text \<open>
  The body of \<^verbatim>\<open>_fetch_codeforces_stats\<close>, \<^verbatim>\<open>_fetch_leetcode_stats\<close> and
  \<^verbatim>\<open>_fetch_codechef_stats\<close>. The three methods are the same loop; they differ in the
  adapter called, the handle column, the platform tag and the row constructed, which
  \<open>p\<close> selects. The list is the rest of \<^verbatim>\<open>range(max_retries)\<close>.
  \<^verbatim>\<open>
  for attempt in range(max_retries):
      try:
          data = codeforces_api.get_user_info(student.cf_handle)
          if data:
              snapshot = StatsSnapshot(...)
              db.session.add(snapshot)
              db.session.commit()
              return
          else:
              if attempt < max_retries - 1:
                  time.sleep(2)
                  continue
              self._save_failed_snapshot(student.id, 'CF', 'Failed to fetch data')
      except Exception as e:
          if attempt < max_retries - 1:
              time.sleep(2)
              continue
          self._save_failed_snapshot(student.id, 'CF', str(e))
  \<close>
  An exception of the commit is raised inside the \<^verbatim>\<open>try\<close> as well, so it takes the
  \<^verbatim>\<open>except\<close> branch.
\<close>

fun attempt_loop ::
  "environment \<Rightarrow> platform_tag \<Rightarrow> Student \<Rightarrow> nat list \<Rightarrow> world \<Rightarrow> world" where
  "attempt_loop env p student [] w = w"
| "attempt_loop env p student (attempt # rest) w =
     (case call_adapter env p (handle_of p student) w of
        (Inl e, w1) \<Rightarrow>
          attempt_loop env p student rest
            (after_failed_attempt env p student attempt (str_of_exc e) w1)
      | (Inr data, w1) \<Rightarrow>
          (if data_truthy data then
             (case add_and_commit env (success_snapshot p (stu_id student) (the data)) w1 of
                (None, w2) \<Rightarrow> w2
              | (Some e, w2) \<Rightarrow>
                  attempt_loop env p student rest
                    (after_failed_attempt env p student attempt (str_of_exc e) w2))
           else
             attempt_loop env p student rest
               (after_failed_attempt env p student attempt ''Failed to fetch data'' w1)))"

definition fetch_platform_stats ::
  "environment \<Rightarrow> platform_tag \<Rightarrow> Student \<Rightarrow> world \<Rightarrow> world" where
  "fetch_platform_stats env p student w = attempt_loop env p student [0..<max_retries] w"

definition fetch_codeforces_stats :: "environment \<Rightarrow> Student \<Rightarrow> world \<Rightarrow> world" where
  "fetch_codeforces_stats env student w = fetch_platform_stats env CF student w"

definition fetch_leetcode_stats :: "environment \<Rightarrow> Student \<Rightarrow> world \<Rightarrow> world" where
  "fetch_leetcode_stats env student w = fetch_platform_stats env LC student w"

definition fetch_codechef_stats :: "environment \<Rightarrow> Student \<Rightarrow> world \<Rightarrow> world" where
  "fetch_codechef_stats env student w = fetch_platform_stats env CC student w"

subsection \<open>Fetch orchestrator\<close>

text \<open>
  \<^verbatim>\<open>
  def _fetch_student_all_platforms(self, student):
      if student.cf_handle:
          self._fetch_codeforces_stats(student)
      if student.lc_username:
          self._fetch_leetcode_stats(student)
      if student.cc_username:
          self._fetch_codechef_stats(student)
  \<close>
\<close>

definition fetch_student_all_platforms :: "environment \<Rightarrow> Student \<Rightarrow> world \<Rightarrow> world" where
  "fetch_student_all_platforms env student w =
     (let w1 = (if handle_truthy (cf_handle student)
                then fetch_codeforces_stats env student w else w);
          w2 = (if handle_truthy (lc_username student)
                then fetch_leetcode_stats env student w1 else w1);
          w3 = (if handle_truthy (cc_username student)
                then fetch_codechef_stats env student w2 else w2)
      in w3)"

subsection \<open>Batch scheduler\<close>

definition batch_size :: nat where
  "batch_size = 10"

text \<open>
  The workers of a batch. The pool runs up to five of them at a time; the model runs
  them one after the other, in the order they are submitted.
\<close>

fun run_batch :: "environment \<Rightarrow> Student list \<Rightarrow> world \<Rightarrow> world" where
  "run_batch env [] w = w"
| "run_batch env (student # batch) w =
     run_batch env batch (fetch_student_all_platforms env student w)"

definition time_sleep_batch :: "world \<Rightarrow> world" where
  "time_sleep_batch w = w\<lparr>events := events w @ [BatchDelay 2]\<rparr>"

definition start_batch :: "Student list \<Rightarrow> world \<Rightarrow> world" where
  "start_batch batch w = w\<lparr>events := events w @ [BatchStart (map stu_id batch)]\<rparr>"

text \<open>
  \<^verbatim>\<open>
  for i in range(0, len(students), batch_size):
      batch = students[i:i + batch_size]
      with concurrent.futures.ThreadPoolExecutor(max_workers=5) as executor:
          ... submit self._fetch_student_all_platforms for each student, wait ...
      if i + batch_size < len(students):
          time.sleep(2)
  \<close>
\<close>

function batch_loop :: "environment \<Rightarrow> Student list \<Rightarrow> nat \<Rightarrow> world \<Rightarrow> world" where
  "batch_loop env sts i w =
     (if i < length sts then
        (let batch = take batch_size (drop i sts);
             w1 = run_batch env batch (start_batch batch w);
             w2 = (if i + batch_size < length sts then time_sleep_batch w1 else w1)
         in batch_loop env sts (i + batch_size) w2)
      else w)"
  by pat_completeness auto
termination
  by (relation "measure (\<lambda>(env, sts, i, w). length sts - i)") (auto simp: batch_size_def)

text \<open>
  \<^verbatim>\<open>
  def fetch_all_stats(self):
      if not self.app:
          return
      with self.app.app_context():
          students = Student.query.all()
          if not students:
              return
          batch_size = 10
          for i in range(0, len(students), batch_size): ...
  \<close>
\<close>

definition fetch_all_stats :: "environment \<Rightarrow> world \<Rightarrow> world" where
  "fetch_all_stats env w =
     (if \<not> app w then w
      else if students w = [] then w
      else batch_loop env (students w) 0 w)"

subsection \<open>On-demand trigger\<close>

text \<open>
  \<^verbatim>\<open>
  def fetch_student_stats(self, student_id):
      with self.app.app_context():
          student = Student.query.get(student_id)
          if not student:
              return False
          if student.cf_handle:
              self._fetch_codeforces_stats(student)
          if student.lc_username:
              self._fetch_leetcode_stats(student)
          if student.cc_username:
              self._fetch_codechef_stats(student)
          return True
  \<close>
  Without an application (\<^verbatim>\<open>self.app\<close> is None) the \<^verbatim>\<open>with\<close> line raises AttributeError.
\<close>

definition fetch_student_stats ::
  "environment \<Rightarrow> int \<Rightarrow> world \<Rightarrow> (py_exception + bool) \<times> world" where
  "fetch_student_stats env sid w =
     (if \<not> app w
      then (Inl (PyExc AttributeError ''NoneType object has no attribute app_context''), w)
      else
        (case find (\<lambda>s. stu_id s = sid) (students w) of
           None \<Rightarrow> (Inr False, w)
         | Some student \<Rightarrow>
             (let w1 = (if handle_truthy (cf_handle student)
                        then fetch_codeforces_stats env student w else w);
                  w2 = (if handle_truthy (lc_username student)
                        then fetch_leetcode_stats env student w1 else w1);
                  w3 = (if handle_truthy (cc_username student)
                        then fetch_codechef_stats env student w2 else w2)
              in (Inr True, w3))))"

section \<open>Vocabulary of the statements\<close>

subsection \<open>Attempts of one retry loop\<close>

text \<open>
  An attempt succeeds when the adapter returns a value that \<^verbatim>\<open>if data:\<close> accepts. An
  attempt that fails leaves the text the scheduler would record for it.
\<close>

fun attempt_succeeds :: "adapter_result \<Rightarrow> bool" where
  "attempt_succeeds (Inl e) = False"
| "attempt_succeeds (Inr data) = data_truthy data"

fun failure_text :: "adapter_result \<Rightarrow> string" where
  "failure_text (Inl e) = str_of_exc e"
| "failure_text (Inr data) = ''Failed to fetch data''"

text \<open>What the adapter yields at the \<open>k\<close>-th attempt of a retry loop started in \<open>w\<close>.\<close>

definition attempt_result ::
  "environment \<Rightarrow> platform_tag \<Rightarrow> Student \<Rightarrow> world \<Rightarrow> nat \<Rightarrow> adapter_result" where
  "attempt_result env p s w k = adapter env (tag p) (handle_of p s) (api_calls w + k)"

text \<open>The world after one adapter call, and after a failed attempt that is retried.\<close>

definition called :: "platform_tag \<Rightarrow> Student \<Rightarrow> world \<Rightarrow> world" where
  "called p s w =
     w\<lparr>events := events w @ [AdapterCall (tag p) (handle_of p s)],
       api_calls := Suc (api_calls w)\<rparr>"

definition retried :: "platform_tag \<Rightarrow> Student \<Rightarrow> world \<Rightarrow> world" where
  "retried p s w = time_sleep_retry (called p s w)"

text \<open>The row a commit stores for a pending snapshot.\<close>

definition stored_row :: "StatsSnapshot \<Rightarrow> StatsSnapshot list \<Rightarrow> int \<Rightarrow> StatsSnapshot" where
  "stored_row snapshot tbl ts = snapshot\<lparr>snap_id := next_snap_id tbl, timestamp := ts\<rparr>"

text \<open>
  The events of a retry loop that makes \<open>k + 1\<close> attempts: a delay of 2 after each of
  the first \<open>k\<close> calls, none after the last call.
\<close>

definition retry_events :: "platform_tag \<Rightarrow> Student \<Rightarrow> nat \<Rightarrow> event list" where
  "retry_events p s k =
     concat (replicate k [AdapterCall (tag p) (handle_of p s), RetryDelay 2]) @
     [AdapterCall (tag p) (handle_of p s)]"

subsection \<open>Rows appended by a run\<close>

definition snapshot_key :: "StatsSnapshot \<Rightarrow> int \<times> string" where
  "snapshot_key r = (student_id r, platform r)"

text \<open>The rows and events a run from \<open>w\<close> to \<open>w'\<close> has added.\<close>

definition new_rows :: "world \<Rightarrow> world \<Rightarrow> StatsSnapshot list" where
  "new_rows w w' = drop (length (stats_snapshots w)) (stats_snapshots w')"

definition new_events :: "world \<Rightarrow> world \<Rightarrow> event list" where
  "new_events w w' = drop (length (events w)) (events w')"

text \<open>The store accepts every write: no commit raises.\<close>

definition store_accepts :: "environment \<Rightarrow> bool" where
  "store_accepts env \<longleftrightarrow> (\<forall>n. \<exists>ts. db_commit env n = Committed ts)"

text \<open>The two shapes of a stored row.\<close>

definition failed_form :: "StatsSnapshot \<Rightarrow> bool" where
  "failed_form r \<longleftrightarrow>
     fetch_status r = ''failed'' \<and> solved r = PInt 0 \<and> rating r = PNone \<and>
     max_rating r = PNone \<and> easy r = PNone \<and> medium r = PNone \<and> hard r = PNone \<and>
     error_message r \<noteq> None"

definition success_form :: "StatsSnapshot \<Rightarrow> bool" where
  "success_form r \<longleftrightarrow> fetch_status r = ''success'' \<and> error_message r = None"

text \<open>
  The keys of appended rows grow: each is above every key of the table before the run
  and above the keys of the rows appended before it.
\<close>

definition ids_increasing :: "StatsSnapshot list \<Rightarrow> StatsSnapshot list \<Rightarrow> bool" where
  "ids_increasing tbl rows \<longleftrightarrow>
     sorted_wrt (<) (map snap_id rows) \<and>
     (\<forall>x \<in> set tbl. \<forall>r \<in> set rows. snap_id x < snap_id r)"

text \<open>The (student, platform) pairs of a student that have a registered handle.\<close>

definition registered_pairs :: "Student \<Rightarrow> (int \<times> string) list" where
  "registered_pairs s =
     map (\<lambda>p. (stu_id s, tag p)) (filter (\<lambda>p. handle_truthy (handle_of p s)) [CF, LC, CC])"

text \<open>
  \<open>appends env K w w'\<close>: the run from \<open>w\<close> to \<open>w'\<close> keeps the application and the
  roster, keeps every row of the table and appends rows of the two shapes, with growing
  keys, for pairs of \<open>K\<close> only; where the store accepts every write, it appends exactly
  one row per entry of \<open>K\<close>, in that order.
\<close>

definition appends :: "environment \<Rightarrow> (int \<times> string) list \<Rightarrow> world \<Rightarrow> world \<Rightarrow> bool" where
  "appends env K w w' \<longleftrightarrow>
     app w' = app w \<and> students w' = students w \<and>
     (\<exists>rows. stats_snapshots w' = stats_snapshots w @ rows \<and>
        set (map snapshot_key rows) \<subseteq> set K \<and>
        (\<forall>r \<in> set rows. success_form r \<or> failed_form r) \<and>
        ids_increasing (stats_snapshots w) rows \<and>
        (store_accepts env \<longrightarrow> map snapshot_key rows = K))"

subsection \<open>Events emitted by a run\<close>


text \<open>The events the orchestration of one student may emit.\<close>

definition student_event :: "Student \<Rightarrow> event \<Rightarrow> bool" where
  "student_event s e \<longleftrightarrow>
     e = RetryDelay 2 \<or>
     (\<exists>p. handle_truthy (handle_of p s) \<and> e = AdapterCall (tag p) (handle_of p s))"

definition emits :: "(event \<Rightarrow> bool) \<Rightarrow> world \<Rightarrow> world \<Rightarrow> bool" where
  "emits P w w' \<longleftrightarrow> (\<exists>evs. events w' = events w @ evs \<and> (\<forall>e \<in> set evs. P e))"

subsection \<open>Batches\<close>

text \<open>
  The partition as the specification words it: consecutive batches of a fixed size, the
  last one possibly smaller.
\<close>

function spec_batches :: "nat \<Rightarrow> 'a list \<Rightarrow> 'a list list" where
  "spec_batches n xs =
     (if n = 0 \<or> xs = [] then [] else take n xs # spec_batches n (drop n xs))"
  by pat_completeness auto
termination
  by (relation "measure (\<lambda>(n, xs). length xs)") auto

declare spec_batches.simps [simp del]

declare batch_loop.simps [simp del]


section \<open>Example data\<close>

definition ex_student :: Student where
  "ex_student = \<lparr>stu_id = 7, cf_handle = Some ''tourist'', lc_username = None, cc_username = None\<rparr>"

definition ex_row :: "nat \<Rightarrow> int \<Rightarrow> string \<Rightarrow> int \<Rightarrow> StatsSnapshot" where
  "ex_row k sid p ts =
     \<lparr>snap_id = k, student_id = sid, platform = p, rating = PInt 1500, max_rating = PInt 1600,
      solved = PInt 42, easy = PNone, medium = PNone, hard = PNone, timestamp = ts,
      fetch_status = ''success'', error_message = None\<rparr>"

text \<open>2026-11-03 00:00:00 in microseconds since \<^verbatim>\<open>datetime.min\<close> (739922 days).\<close>

definition ex_now :: int where
  "ex_now = 739922 * us_per_day"

text \<open>
  Five rows: three Codeforces rows of student 7 (one, two and forty days before
  \<open>ex_now\<close>, stored out of order), one LeetCode row of student 7, one Codeforces row of
  student 8.
\<close>

definition ex_table :: "StatsSnapshot list" where
  "ex_table =
     [ex_row 1 7 ''CF'' (739920 * us_per_day),
      ex_row 2 7 ''CF'' (739921 * us_per_day),
      ex_row 3 7 ''LC'' (739922 * us_per_day),
      ex_row 4 8 ''CF'' (739922 * us_per_day),
      ex_row 5 7 ''CF'' (739882 * us_per_day)]"


text \<open>A scheduler that has its application, a roster of one student and empty logs.\<close>

definition ex_world :: world where
  "ex_world =
     \<lparr>app = True, students = [ex_student], stats_snapshots = [], events = [],
      api_calls = 0, commits = 0\<rparr>"

definition ex_payload_cf :: payload where
  "ex_payload_cf =
     [(''rating'', PInt 1500), (''max_rating'', PInt 1600), (''solved'', PInt 42),
      (''handle'', PStr ''tourist''), (''rank'', PStr ''expert'')]"



text \<open>An environment whose adapters always return the Codeforces payload; the store accepts every write.\<close>

definition ex_env_ok :: environment where
  "ex_env_ok =
     \<lparr>adapter = (\<lambda>t h n. Inr (Some ex_payload_cf)),
      db_commit = (\<lambda>n. Committed (ex_now + int n))\<rparr>"

text \<open>An environment whose adapters always return None; the store accepts every write.\<close>

definition ex_env_absent :: environment where
  "ex_env_absent =
     \<lparr>adapter = (\<lambda>t h n. Inr None),
      db_commit = (\<lambda>n. Committed (ex_now + int n))\<rparr>"







text \<open>The row stored for the Codeforces payload by the first commit.\<close>

definition ex_cf_row :: StatsSnapshot where
  "ex_cf_row =
     \<lparr>snap_id = 1, student_id = 7, platform = ''CF'', rating = PInt 1500,
      max_rating = PInt 1600, solved = PInt 42, easy = PNone, medium = PNone,
      hard = PNone, timestamp = ex_now, fetch_status = ''success'',
      error_message = None\<rparr>"


text \<open>The row stored when every Codeforces attempt returned None.\<close>

definition ex_failed_row :: StatsSnapshot where
  "ex_failed_row =
     \<lparr>snap_id = 1, student_id = 7, platform = ''CF'', rating = PNone,
      max_rating = PNone, solved = PInt 0, easy = PNone, medium = PNone,
      hard = PNone, timestamp = ex_now, fetch_status = ''failed'',
      error_message = Some ''Failed to fetch data''\<rparr>"

section \<open>Properties of the read path\<close>

lemma first_row_None: "first_row xs = None \<longleftrightarrow> xs = []"
  by (cases xs) (simp_all add: first_row_def)

lemma first_row_rev_sort_key_max:
  assumes "first_row (rev (sort_key f xs)) = Some x"
  shows "x \<in> set xs \<and> (\<forall>y \<in> set xs. f y \<le> (f x :: int))"
proof -
  from assms obtain zs where "rev (sort_key f xs) = x # zs"
    by (auto simp: first_row_def split: list.splits)
  then have ys: "sort_key f xs = rev zs @ [x]"
    by (metis rev.simps(2) rev_rev_ident)
  have "sorted (map f (sort_key f xs))"
    by (rule sorted_sort_key)
  then have le: "\<forall>y \<in> set zs. f y \<le> f x"
    unfolding ys by (simp add: sorted_append)
  have "set xs = set (sort_key f xs)"
    by simp
  then have "set xs = insert x (set zs)"
    unfolding ys by simp
  with le show ?thesis
    by simp
qed

lemma sort_key_Nil_iff: "sort_key f xs = [] \<longleftrightarrow> xs = []"
  by (metis length_sort length_0_conv)

lemma get_latest_stats_None:
  "get_latest_stats tbl s p = None \<longleftrightarrow>
     (\<forall>r \<in> set tbl. \<not> (student_id r = stu_id s \<and> platform r = p))"
  by (auto simp: get_latest_stats_def order_by_timestamp_desc_def stats_snapshots_of_def
      first_row_None sort_key_Nil_iff filter_empty_conv)

lemma get_latest_stats_Some:
  assumes "get_latest_stats tbl s p = Some x"
  shows "x \<in> set tbl \<and> student_id x = stu_id s \<and> platform x = p \<and>
         (\<forall>r \<in> set tbl. student_id r = stu_id s \<and> platform r = p \<longrightarrow> timestamp r \<le> timestamp x)"
  using first_row_rev_sort_key_max [of timestamp
      "filter (\<lambda>r. platform r = p) (stats_snapshots_of s tbl)" x] assms
  by (auto simp: get_latest_stats_def order_by_timestamp_desc_def stats_snapshots_of_def)

lemma get_stats_history_rows:
  assumes "\<bar>days\<bar> \<le> 999999999"
    and "0 \<le> now - days * us_per_day"
    and "now - days * us_per_day \<le> datetime_max"
  shows "get_stats_history tbl now s p days =
           Inr (sort_key timestamp
                  (filter (\<lambda>r. platform r = p \<and> now - days * us_per_day \<le> timestamp r)
                     (stats_snapshots_of s tbl)))"
  using assms
  by (simp add: get_stats_history_def timedelta_days_def datetime_sub_def
      order_by_timestamp_asc_def)

section \<open>Properties of the pipeline\<close>

lemma range_max_retries: "[0..<max_retries] = [0, 1, 2]"
  by (simp add: max_retries_def numeral_3_eq_3)

lemma fetch_platform_stats_unfold:
  "fetch_platform_stats env p s w = attempt_loop env p s [0, 1, 2] w"
  by (simp add: fetch_platform_stats_def range_max_retries)

lemma attempt_failed_step:
  assumes "\<not> attempt_succeeds (adapter env (tag p) (handle_of p s) (api_calls w))"
  shows "attempt_loop env p s (a # rest) w =
           attempt_loop env p s rest
             (after_failed_attempt env p s a
                (failure_text (adapter env (tag p) (handle_of p s) (api_calls w))) (called p s w))"
  using assms
  by (cases "adapter env (tag p) (handle_of p s) (api_calls w)")
     (simp_all add: call_adapter_def called_def)

lemma attempt_stored_step:
  assumes "adapter env (tag p) (handle_of p s) (api_calls w) = Inr (Some d)" and "d \<noteq> []"
    and "db_commit env (commits w) = Committed ts"
  shows "attempt_loop env p s (a # rest) w =
           (called p s w)\<lparr>stats_snapshots := stats_snapshots w @
                [(success_snapshot p (stu_id s) d)\<lparr>snap_id := next_snap_id (stats_snapshots w), timestamp := ts\<rparr>],
              commits := Suc (commits w)\<rparr>"
  using assms
  by (simp add: call_adapter_def called_def add_and_commit_def)

lemma attempt_rejected_step:
  assumes "adapter env (tag p) (handle_of p s) (api_calls w) = Inr (Some d)" and "d \<noteq> []"
    and "db_commit env (commits w) = CommitFailed e"
  shows "attempt_loop env p s (a # rest) w =
           attempt_loop env p s rest
             (after_failed_attempt env p s a (str_of_exc e) ((called p s w)\<lparr>commits := Suc (commits w)\<rparr>))"
  using assms
  by (simp add: call_adapter_def called_def add_and_commit_def)

lemma save_failed_snapshot_events [simp]:
  "events (save_failed_snapshot env sid t msg w) = events w"
  by (simp add: save_failed_snapshot_def add_and_commit_def session_rollback_def
      split: commit_result.splits)

lemma save_failed_snapshot_api_calls [simp]:
  "api_calls (save_failed_snapshot env sid t msg w) = api_calls w"
  by (simp add: save_failed_snapshot_def add_and_commit_def session_rollback_def
      split: commit_result.splits)

lemma after_failed_attempt_events:
  "events (after_failed_attempt env p s a msg w) =
     events w @ (if a < 2 then [RetryDelay 2] else [])"
  by (simp add: after_failed_attempt_def max_retries_def time_sleep_retry_def)

lemma after_failed_attempt_api_calls [simp]:
  "api_calls (after_failed_attempt env p s a msg w) = api_calls w"
  by (simp add: after_failed_attempt_def time_sleep_retry_def)

lemma save_failed_snapshot_frame [simp]:
  "app (save_failed_snapshot env sid t msg w) = app w"
  "students (save_failed_snapshot env sid t msg w) = students w"
  by (simp_all add: save_failed_snapshot_def add_and_commit_def session_rollback_def
      split: commit_result.splits)

lemma after_failed_attempt_frame [simp]:
  "app (after_failed_attempt env p s a msg w) = app w"
  "students (after_failed_attempt env p s a msg w) = students w"
  by (simp_all add: after_failed_attempt_def time_sleep_retry_def)

lemma after_failed_attempt_rows:
  "stats_snapshots (after_failed_attempt env p s a msg w) = stats_snapshots w \<or>
   (\<not> a < 2 \<and> (\<exists>ts. stats_snapshots (after_failed_attempt env p s a msg w) =
       stats_snapshots w @
         [stored_row (failed_snapshot (stu_id s) (tag p) msg) (stats_snapshots w) ts]))"
  by (auto simp: after_failed_attempt_def time_sleep_retry_def max_retries_def
      save_failed_snapshot_def add_and_commit_def session_rollback_def stored_row_def
      split: commit_result.splits)

text \<open>One attempt either stores its row and leaves the loop, or goes on with the rest.\<close>

lemma attempt_step_cases:
  obtains (stored) d ts where
      "adapter env (tag p) (handle_of p s) (api_calls w) = Inr (Some d)" "d \<noteq> []"
      "db_commit env (commits w) = Committed ts"
      "attempt_loop env p s (a # rest) w =
         (called p s w)\<lparr>stats_snapshots := stats_snapshots w @
              [stored_row (success_snapshot p (stu_id s) d) (stats_snapshots w) ts],
            commits := Suc (commits w)\<rparr>"
  | (failed) w1 where
      "attempt_loop env p s (a # rest) w = attempt_loop env p s rest w1"
      "events w1 = events w @ AdapterCall (tag p) (handle_of p s) # (if a < 2 then [RetryDelay 2] else [])"
      "api_calls w1 = Suc (api_calls w)"
      "app w1 = app w" "students w1 = students w"
      "stats_snapshots w1 = stats_snapshots w \<or>
       (\<not> a < 2 \<and> (\<exists>msg ts. stats_snapshots w1 =
          stats_snapshots w @
            [stored_row (failed_snapshot (stu_id s) (tag p) msg) (stats_snapshots w) ts]))"
proof (cases "attempt_succeeds (adapter env (tag p) (handle_of p s) (api_calls w))")
  case False
  let ?msg = "failure_text (adapter env (tag p) (handle_of p s) (api_calls w))"
  show ?thesis
  proof (rule failed [OF attempt_failed_step [OF False]])
    show "stats_snapshots (after_failed_attempt env p s a ?msg (called p s w)) = stats_snapshots w \<or>
       (\<not> a < 2 \<and> (\<exists>msg ts. stats_snapshots (after_failed_attempt env p s a ?msg (called p s w)) =
          stats_snapshots w @
            [stored_row (failed_snapshot (stu_id s) (tag p) msg) (stats_snapshots w) ts]))"
      using after_failed_attempt_rows [of env p s a ?msg "called p s w"]
      by (auto simp: called_def)
  qed (simp_all add: after_failed_attempt_events called_def)
next
  case True
  then obtain d where d: "adapter env (tag p) (handle_of p s) (api_calls w) = Inr (Some d)" "d \<noteq> []"
    by (cases "adapter env (tag p) (handle_of p s) (api_calls w)")
       (auto elim: data_truthy.elims)
  show ?thesis
  proof (cases "db_commit env (commits w)")
    case (Committed ts)
    show ?thesis
      using attempt_stored_step [OF d Committed, of a rest]
      by (intro stored [OF d Committed]) (simp add: stored_row_def)
  next
    case (CommitFailed e)
    let ?w = "(called p s w)\<lparr>commits := Suc (commits w)\<rparr>"
    show ?thesis
    proof (rule failed [OF attempt_rejected_step [OF d CommitFailed]])
      show "stats_snapshots (after_failed_attempt env p s a (str_of_exc e) ?w) = stats_snapshots w \<or>
         (\<not> a < 2 \<and> (\<exists>msg ts. stats_snapshots (after_failed_attempt env p s a (str_of_exc e) ?w) =
            stats_snapshots w @
              [stored_row (failed_snapshot (stu_id s) (tag p) msg) (stats_snapshots w) ts]))"
        using after_failed_attempt_rows [of env p s a "str_of_exc e" ?w]
        by (auto simp: called_def)
    qed (simp_all add: after_failed_attempt_events called_def)
  qed
qed

lemma fetch_platform_stats_attempts:
  "\<exists>k < 3. api_calls (fetch_platform_stats env p s w) = api_calls w + Suc k \<and>
           events (fetch_platform_stats env p s w) = events w @ retry_events p s k"
proof -
  let ?F = "fetch_platform_stats env p s w"
  have F: "?F = attempt_loop env p s [0, 1, 2] w"
    by (simp add: fetch_platform_stats_def range_max_retries)
  show ?thesis
  proof (cases rule: attempt_step_cases [of env p s w 0 "[1, 2]"])
    case (stored d ts)
    then have "api_calls ?F = api_calls w + Suc 0 \<and> events ?F = events w @ retry_events p s 0"
      by (simp add: F called_def retry_events_def)
    then show ?thesis by (intro exI [of _ 0]) simp
  next
    case (failed w1)
    note f1 = this
    show ?thesis
    proof (cases rule: attempt_step_cases [of env p s w1 1 "[2]"])
      case (stored d ts)
      then have "api_calls ?F = api_calls w + Suc 1 \<and> events ?F = events w @ retry_events p s 1"
        using f1 by (simp add: F called_def retry_events_def)
      then show ?thesis by (intro exI [of _ 1]) simp
    next
      case (failed w2)
      note f2 = this
      show ?thesis
      proof (cases rule: attempt_step_cases [of env p s w2 2 "[]"])
        case (stored d ts)
        then have "api_calls ?F = api_calls w + Suc 2 \<and> events ?F = events w @ retry_events p s 2"
          using f1 f2 by (simp add: F called_def retry_events_def numeral_2_eq_2)
        then show ?thesis by (intro exI [of _ 2]) simp
      next
        case (failed w3)
        then have "api_calls ?F = api_calls w + Suc 2 \<and> events ?F = events w @ retry_events p s 2"
          using f1 f2 by (simp add: F retry_events_def numeral_2_eq_2)
        then show ?thesis by (intro exI [of _ 2]) simp
      qed
    qed
  qed
qed

lemma retried_simps [simp]:
  "api_calls (retried p s w) = Suc (api_calls w)"
  "commits (retried p s w) = commits w"
  "stats_snapshots (retried p s w) = stats_snapshots w"
  "events (retried p s w) = events w @ [AdapterCall (tag p) (handle_of p s), RetryDelay 2]"
  by (simp_all add: retried_def time_sleep_retry_def called_def)

lemma attempt_failed_retry:
  assumes "\<not> attempt_succeeds (adapter env (tag p) (handle_of p s) (api_calls w))" and "a < 2"
  shows "attempt_loop env p s (a # rest) w = attempt_loop env p s rest (retried p s w)"
proof -
  have "after_failed_attempt env p s a msg (called p s w) = retried p s w" for msg
    using assms(2) by (simp add: after_failed_attempt_def max_retries_def retried_def)
  with attempt_failed_step [OF assms(1), of a rest] show ?thesis
    by simp
qed

lemma attempt_failed_last:
  assumes "\<not> attempt_succeeds (adapter env (tag p) (handle_of p s) (api_calls w))"
    and "db_commit env (commits w) = Committed ts"
  shows "attempt_loop env p s [2] w =
           (called p s w)\<lparr>stats_snapshots := stats_snapshots w @
              [(failed_snapshot (stu_id s) (tag p)
                  (failure_text (adapter env (tag p) (handle_of p s) (api_calls w))))
                \<lparr>snap_id := next_snap_id (stats_snapshots w), timestamp := ts\<rparr>],
              commits := Suc (commits w)\<rparr>"
proof -
  have "after_failed_attempt env p s 2 msg (called p s w) =
          (called p s w)\<lparr>stats_snapshots := stats_snapshots w @
              [(failed_snapshot (stu_id s) (tag p) msg)
                \<lparr>snap_id := next_snap_id (stats_snapshots w), timestamp := ts\<rparr>],
              commits := Suc (commits w)\<rparr>" for msg
    using assms(2)
    by (simp add: after_failed_attempt_def max_retries_def save_failed_snapshot_def
        add_and_commit_def called_def)
  with attempt_failed_step [OF assms(1), of 2 "[]"] show ?thesis
    by simp
qed

lemma first_success_stored:
  assumes store: "db_commit env (commits w) = Committed ts"
    and k: "k < 3"
    and before: "\<forall>j<k. \<not> attempt_succeeds (attempt_result env p s w j)"
    and ok: "attempt_result env p s w k = Inr (Some d)" "d \<noteq> []"
  shows "api_calls (fetch_platform_stats env p s w) = api_calls w + Suc k \<and>
         events (fetch_platform_stats env p s w) = events w @ retry_events p s k \<and>
         stats_snapshots (fetch_platform_stats env p s w) =
           stats_snapshots w @
             [stored_row (success_snapshot p (stu_id s) d) (stats_snapshots w) ts]"
proof -
  let ?F = "fetch_platform_stats env p s w"
  have F: "?F = attempt_loop env p s [0, 1, 2] w"
    by (simp add: fetch_platform_stats_def range_max_retries)
  from k consider "k = 0" | "k = 1" | "k = 2"
    by linarith
  then show ?thesis
  proof cases
    case 1
    with ok have "adapter env (tag p) (handle_of p s) (api_calls w) = Inr (Some d)"
      by (simp add: attempt_result_def)
    from attempt_stored_step [OF this ok(2) store, of 0 "[1, 2]"] 1 show ?thesis
      by (simp add: F called_def retry_events_def stored_row_def)
  next
    case 2
    with before have f0: "\<not> attempt_succeeds (adapter env (tag p) (handle_of p s) (api_calls w))"
      by (simp add: attempt_result_def)
    from 2 ok have a: "adapter env (tag p) (handle_of p s) (api_calls (retried p s w)) = Inr (Some d)"
      by (simp add: attempt_result_def)
    have c: "db_commit env (commits (retried p s w)) = Committed ts"
      using store by simp
    from attempt_stored_step [OF a ok(2) c, of 1 "[2]"]
      attempt_failed_retry [OF f0, of 0 "[1, 2]"] 2
    show ?thesis
      by (simp add: F called_def retry_events_def stored_row_def)
  next
    case 3
    with before have f0: "\<not> attempt_succeeds (adapter env (tag p) (handle_of p s) (api_calls w))"
      and f1: "\<not> attempt_succeeds (adapter env (tag p) (handle_of p s) (api_calls (retried p s w)))"
      using before [rule_format, of 0] before [rule_format, of 1]
      by (simp_all add: attempt_result_def)
    let ?w2 = "retried p s (retried p s w)"
    from 3 ok have a: "adapter env (tag p) (handle_of p s) (api_calls ?w2) = Inr (Some d)"
      by (simp add: attempt_result_def numeral_2_eq_2)
    have c: "db_commit env (commits ?w2) = Committed ts"
      using store by simp
    from attempt_stored_step [OF a ok(2) c, of 2 "[]"]
      attempt_failed_retry [OF f0, of 0 "[1, 2]"] attempt_failed_retry [OF f1, of 1 "[2]"] 3
    show ?thesis
      by (simp add: F called_def retry_events_def stored_row_def numeral_2_eq_2)
  qed
qed

lemma exhausted_stored:
  assumes store: "db_commit env (commits w) = Committed ts"
    and fails: "\<forall>j<3. \<not> attempt_succeeds (attempt_result env p s w j)"
  shows "api_calls (fetch_platform_stats env p s w) = api_calls w + 3 \<and>
         events (fetch_platform_stats env p s w) = events w @ retry_events p s 2 \<and>
         stats_snapshots (fetch_platform_stats env p s w) =
           stats_snapshots w @
             [stored_row
                (failed_snapshot (stu_id s) (tag p) (failure_text (attempt_result env p s w 2)))
                (stats_snapshots w) ts]"
proof -
  let ?F = "fetch_platform_stats env p s w"
  have F: "?F = attempt_loop env p s [0, 1, 2] w"
    by (simp add: fetch_platform_stats_def range_max_retries)
  let ?w2 = "retried p s (retried p s w)"
  have f0: "\<not> attempt_succeeds (adapter env (tag p) (handle_of p s) (api_calls w))"
    and f1: "\<not> attempt_succeeds (adapter env (tag p) (handle_of p s) (api_calls (retried p s w)))"
    and f2: "\<not> attempt_succeeds (adapter env (tag p) (handle_of p s) (api_calls ?w2))"
    using fails [rule_format, of 0] fails [rule_format, of 1] fails [rule_format, of 2]
    by (simp_all add: attempt_result_def numeral_2_eq_2)
  have "db_commit env (commits ?w2) = Committed ts"
    using store by simp
  from attempt_failed_last [OF f2 this]
    attempt_failed_retry [OF f0, of 0 "[1, 2]"] attempt_failed_retry [OF f1, of 1 "[2]"]
  show ?thesis
    by (simp add: F called_def retry_events_def stored_row_def attempt_result_def numeral_2_eq_2)
qed

text \<open>What one retry loop leaves in the table, whatever the environment does.\<close>

lemma fetch_platform_stats_rows:
  "app (fetch_platform_stats env p s w) = app w \<and>
   students (fetch_platform_stats env p s w) = students w \<and>
   (stats_snapshots (fetch_platform_stats env p s w) = stats_snapshots w \<or>
    (\<exists>d ts. stats_snapshots (fetch_platform_stats env p s w) =
       stats_snapshots w @ [stored_row (success_snapshot p (stu_id s) d) (stats_snapshots w) ts]) \<or>
    (\<exists>msg ts. stats_snapshots (fetch_platform_stats env p s w) =
       stats_snapshots w @ [stored_row (failed_snapshot (stu_id s) (tag p) msg) (stats_snapshots w) ts]))"
proof -
  let ?F = "fetch_platform_stats env p s w"
  have F: "?F = attempt_loop env p s [0, 1, 2] w"
    by (simp add: fetch_platform_stats_def range_max_retries)
  show ?thesis
  proof (cases rule: attempt_step_cases [of env p s w 0 "[1, 2]"])
    case (stored d ts)
    then show ?thesis
      by (auto simp: F called_def)
  next
    case (failed w1)
    note f1 = this
    show ?thesis
    proof (cases rule: attempt_step_cases [of env p s w1 1 "[2]"])
      case (stored d ts)
      then show ?thesis
        using f1 by (auto simp: F called_def)
    next
      case (failed w2)
      note f2 = this
      show ?thesis
      proof (cases rule: attempt_step_cases [of env p s w2 2 "[]"])
        case (stored d ts)
        then show ?thesis
          using f1 f2 by (auto simp: F called_def)
      next
        case (failed w3)
        then show ?thesis
          using f1 f2 by (auto simp: F)
      qed
    qed
  qed
qed

lemma ids_increasing_Nil [simp]: "ids_increasing tbl []"
  by (simp add: ids_increasing_def)

lemma ids_increasing_append:
  assumes "ids_increasing tbl a" and "ids_increasing (tbl @ a) b"
  shows "ids_increasing tbl (a @ b)"
  using assms by (auto simp: ids_increasing_def sorted_wrt_append)

lemma fold_max_ge: "(a :: nat) \<le> fold max xs a"
proof (induction xs arbitrary: a)
  case Nil
  show ?case by simp
next
  case (Cons x xs)
  have "a \<le> max x a" by simp
  also have "\<dots> \<le> fold max xs (max x a)" by (rule Cons.IH)
  finally show ?case by simp
qed

lemma fold_max_mem: "(x :: nat) \<in> set xs \<Longrightarrow> x \<le> fold max xs a"
proof (induction xs arbitrary: a)
  case Nil
  then show ?case by simp
next
  case (Cons y ys)
  show ?case
  proof (cases "x = y")
    case True
    have "x \<le> max y a" using True by simp
    also have "\<dots> \<le> fold max ys (max y a)" by (rule fold_max_ge)
    finally show ?thesis by simp
  next
    case False
    with Cons.prems have "x \<in> set ys" by simp
    then show ?thesis using Cons.IH by simp
  qed
qed

lemma next_snap_id_fresh: "x \<in> set tbl \<Longrightarrow> snap_id x < next_snap_id tbl"
  using fold_max_mem [of "snap_id x" "map snap_id tbl" 0]
  by (simp add: next_snap_id_def less_Suc_eq_le)

lemma ids_increasing_stored_row [simp]: "ids_increasing tbl [stored_row snapshot tbl ts]"
  by (simp add: ids_increasing_def stored_row_def next_snap_id_fresh)

lemma appends_refl: "appends env [] w w"
  by (simp add: appends_def)

lemma appends_same_tables:
  assumes "app w' = app w" "students w' = students w" "stats_snapshots w' = stats_snapshots w"
  shows "appends env [] w w'"
  using assms by (simp add: appends_def)

lemma appends_trans:
  assumes "appends env K1 w w1" and "appends env K2 w1 w2"
  shows "appends env (K1 @ K2) w w2"
proof -
  from assms(1) obtain a where a:
    "app w1 = app w" "students w1 = students w" "stats_snapshots w1 = stats_snapshots w @ a"
    "set (map snapshot_key a) \<subseteq> set K1" "\<forall>r \<in> set a. success_form r \<or> failed_form r"
    "ids_increasing (stats_snapshots w) a" "store_accepts env \<longrightarrow> map snapshot_key a = K1"
    unfolding appends_def by blast
  from assms(2) obtain b where b:
    "app w2 = app w1" "students w2 = students w1" "stats_snapshots w2 = stats_snapshots w1 @ b"
    "set (map snapshot_key b) \<subseteq> set K2" "\<forall>r \<in> set b. success_form r \<or> failed_form r"
    "ids_increasing (stats_snapshots w1) b" "store_accepts env \<longrightarrow> map snapshot_key b = K2"
    unfolding appends_def by blast
  have "stats_snapshots w2 = stats_snapshots w @ (a @ b)"
    using a(3) b(3) by simp
  moreover have "set (map snapshot_key (a @ b)) \<subseteq> set (K1 @ K2)"
    using a(4) b(4) by auto
  moreover have "\<forall>r \<in> set (a @ b). success_form r \<or> failed_form r"
    using a(5) b(5) by auto
  moreover have "ids_increasing (stats_snapshots w) (a @ b)"
    using a(6) b(6) a(3) by (simp add: ids_increasing_append)
  moreover have "store_accepts env \<longrightarrow> map snapshot_key (a @ b) = K1 @ K2"
    using a(7) b(7) by simp
  ultimately show ?thesis
    unfolding appends_def using a(1,2) b(1,2) by (intro conjI exI [of _ "a @ b"]) simp_all
qed

lemma stored_row_fields [simp]:
  "snapshot_key (stored_row snapshot tbl ts) = snapshot_key snapshot"
  "success_form (stored_row snapshot tbl ts) = success_form snapshot"
  "failed_form (stored_row snapshot tbl ts) = failed_form snapshot"
  by (simp_all add: stored_row_def snapshot_key_def success_form_def failed_form_def)

lemma success_snapshot_fields [simp]:
  "snapshot_key (success_snapshot p sid d) = (sid, tag p)"
  "success_form (success_snapshot p sid d)"
  by (cases p; simp add: snapshot_key_def success_form_def)+

lemma failed_snapshot_fields [simp]:
  "snapshot_key (failed_snapshot sid t msg) = (sid, t)"
  "failed_form (failed_snapshot sid t msg)"
  by (simp_all add: snapshot_key_def failed_form_def failed_snapshot_def)

text \<open>With a store that accepts every write, a retry loop appends exactly one row.\<close>

lemma fetch_platform_stats_one_row:
  assumes "store_accepts env"
  shows "\<exists>r. stats_snapshots (fetch_platform_stats env p s w) = stats_snapshots w @ [r]"
proof -
  from assms obtain ts where store: "db_commit env (commits w) = Committed ts"
    unfolding store_accepts_def by blast
  show ?thesis
  proof (cases "\<forall>j<3. \<not> attempt_succeeds (attempt_result env p s w j)")
    case True
    from exhausted_stored [OF store True] show ?thesis by blast
  next
    case False
    define k where "k = (LEAST j. j < 3 \<and> attempt_succeeds (attempt_result env p s w j))"
    from False have ex: "\<exists>j. j < 3 \<and> attempt_succeeds (attempt_result env p s w j)"
      by blast
    from LeastI_ex [OF ex] have k: "k < 3" "attempt_succeeds (attempt_result env p s w k)"
      unfolding k_def by blast+
    have before: "\<forall>j<k. \<not> attempt_succeeds (attempt_result env p s w j)"
    proof (intro allI impI)
      fix j assume "j < k"
      with not_less_Least [of j "\<lambda>j. j < 3 \<and> attempt_succeeds (attempt_result env p s w j)"] k(1)
      show "\<not> attempt_succeeds (attempt_result env p s w j)"
        unfolding k_def by auto
    qed
    from k(2) obtain d where d: "attempt_result env p s w k = Inr (Some d)" "d \<noteq> []"
      by (cases "attempt_result env p s w k") (auto elim: data_truthy.elims)
    from first_success_stored [OF store k(1) before d] show ?thesis by blast
  qed
qed

lemma fetch_platform_stats_appends:
  "appends env [(stu_id s, tag p)] w (fetch_platform_stats env p s w)"
proof -
  let ?F = "fetch_platform_stats env p s w"
  have frame: "app ?F = app w" "students ?F = students w"
    using fetch_platform_stats_rows [of env p s w] by simp_all
  consider (none) "stats_snapshots ?F = stats_snapshots w @ []"
    | (row) r where "stats_snapshots ?F = stats_snapshots w @ [r]"
        "snapshot_key r = (stu_id s, tag p)" "success_form r \<or> failed_form r"
        "ids_increasing (stats_snapshots w) [r]"
  proof -
    from fetch_platform_stats_rows [of env p s w]
    consider "stats_snapshots ?F = stats_snapshots w"
      | d ts where "stats_snapshots ?F =
          stats_snapshots w @ [stored_row (success_snapshot p (stu_id s) d) (stats_snapshots w) ts]"
      | msg ts where "stats_snapshots ?F =
          stats_snapshots w @ [stored_row (failed_snapshot (stu_id s) (tag p) msg) (stats_snapshots w) ts]"
      by blast
    then show ?thesis
    proof cases
      case 1
      then show ?thesis by (intro none) simp
    next
      case 2
      then show ?thesis by (rule row) simp_all
    next
      case 3
      then show ?thesis by (rule row) simp_all
    qed
  qed
  then show ?thesis
  proof cases
    case none
    have "\<not> store_accepts env"
      using fetch_platform_stats_one_row [of env p s w] none by auto
    with none frame show ?thesis
      unfolding appends_def by (intro conjI exI [of _ "[]"]) simp_all
  next
    case (row r)
    with frame show ?thesis
      unfolding appends_def by (intro conjI exI [of _ "[r]"]) simp_all
  qed
qed

lemma fetch_student_all_platforms_appends:
  "appends env (registered_pairs s) w (fetch_student_all_platforms env s w)"
proof -
  define w1 where "w1 = (if handle_truthy (cf_handle s) then fetch_codeforces_stats env s w else w)"
  define w2 where "w2 = (if handle_truthy (lc_username s) then fetch_leetcode_stats env s w1 else w1)"
  define w3 where "w3 = (if handle_truthy (cc_username s) then fetch_codechef_stats env s w2 else w2)"
  define K1 where "K1 = (if handle_truthy (cf_handle s) then [(stu_id s, ''CF'')] else [])"
  define K2 where "K2 = (if handle_truthy (lc_username s) then [(stu_id s, ''LC'')] else [])"
  define K3 where "K3 = (if handle_truthy (cc_username s) then [(stu_id s, ''CC'')] else [])"
  have 1: "appends env K1 w w1"
    using fetch_platform_stats_appends [of env s CF w]
    by (simp add: w1_def K1_def fetch_codeforces_stats_def appends_refl)
  have 2: "appends env K2 w1 w2"
    using fetch_platform_stats_appends [of env s LC w1]
    by (simp add: w2_def K2_def fetch_leetcode_stats_def appends_refl)
  have 3: "appends env K3 w2 w3"
    using fetch_platform_stats_appends [of env s CC w2]
    by (simp add: w3_def K3_def fetch_codechef_stats_def appends_refl)
  have "registered_pairs s = K1 @ K2 @ K3"
    by (simp add: registered_pairs_def K1_def K2_def K3_def)
  moreover have "fetch_student_all_platforms env s w = w3"
    by (simp add: fetch_student_all_platforms_def w1_def w2_def w3_def)
  ultimately show ?thesis
    using appends_trans [OF 1 appends_trans [OF 2 3]] by simp
qed

lemma run_batch_appends:
  "appends env (concat (map registered_pairs batch)) w (run_batch env batch w)"
proof (induction batch arbitrary: w)
  case Nil
  show ?case by (simp add: appends_refl)
next
  case (Cons s batch)
  from appends_trans [OF fetch_student_all_platforms_appends Cons.IH]
  show ?case by simp
qed

lemma batch_loop_appends:
  "appends env (concat (map registered_pairs (drop i sts))) w (batch_loop env sts i w)"
proof (induction env sts i w rule: batch_loop.induct)
  case (1 env sts i w)
  show ?case
  proof (cases "i < length sts")
    case False
    then show ?thesis
      by (subst batch_loop.simps) (simp add: appends_refl)
  next
    case True
    define batch where "batch = take batch_size (drop i sts)"
    define w1 where "w1 = run_batch env batch (start_batch batch w)"
    define w2 where "w2 = (if i + batch_size < length sts then time_sleep_batch w1 else w1)"
    have step: "batch_loop env sts i w = batch_loop env sts (i + batch_size) w2"
      using True by (subst batch_loop.simps) (simp add: batch_def w1_def w2_def Let_def)
    have a: "appends env [] w (start_batch batch w)"
      by (rule appends_same_tables) (simp_all add: start_batch_def)
    have b: "appends env (concat (map registered_pairs batch)) (start_batch batch w) w1"
      unfolding w1_def by (rule run_batch_appends)
    have c: "appends env [] w1 w2"
      by (rule appends_same_tables) (simp_all add: w2_def time_sleep_batch_def)
    have d: "appends env (concat (map registered_pairs (drop (i + batch_size) sts))) w2
               (batch_loop env sts (i + batch_size) w2)"
      using "1.IH" [OF True batch_def w1_def w2_def] .
    have "drop i sts = batch @ drop (i + batch_size) sts"
      by (simp add: batch_def add.commute [of i] flip: drop_drop)
    then have "concat (map registered_pairs (drop i sts)) =
        [] @ concat (map registered_pairs batch) @ [] @
          concat (map registered_pairs (drop (i + batch_size) sts))"
      by simp
    with appends_trans [OF a appends_trans [OF b appends_trans [OF c d]]] step
    show ?thesis by simp
  qed
qed

lemma emits_refl: "emits P w w"
  by (simp add: emits_def)

lemma emits_trans: "emits P w w1 \<Longrightarrow> emits P w1 w2 \<Longrightarrow> emits P w w2"
  unfolding emits_def by (metis UnE append.assoc set_append)

lemma emits_mono: "emits P w w' \<Longrightarrow> (\<And>e. P e \<Longrightarrow> Q e) \<Longrightarrow> emits Q w w'"
  unfolding emits_def by blast

lemma set_retry_events:
  "set (retry_events p s k) \<subseteq> {AdapterCall (tag p) (handle_of p s), RetryDelay 2}"
  by (induction k) (auto simp: retry_events_def)

lemma fetch_platform_stats_emits:
  "emits (\<lambda>e. e = RetryDelay 2 \<or> e = AdapterCall (tag p) (handle_of p s)) w
     (fetch_platform_stats env p s w)"
proof -
  from fetch_platform_stats_attempts [of env p s w] obtain k where
    "events (fetch_platform_stats env p s w) = events w @ retry_events p s k"
    by blast
  with set_retry_events [of p s k] show ?thesis
    unfolding emits_def by (intro exI [of _ "retry_events p s k"]) auto
qed

lemma fetch_student_all_platforms_emits:
  "emits (student_event s) w (fetch_student_all_platforms env s w)"
proof -
  define w1 where "w1 = (if handle_truthy (cf_handle s) then fetch_codeforces_stats env s w else w)"
  define w2 where "w2 = (if handle_truthy (lc_username s) then fetch_leetcode_stats env s w1 else w1)"
  define w3 where "w3 = (if handle_truthy (cc_username s) then fetch_codechef_stats env s w2 else w2)"
  have step: "emits (student_event s) v (fetch_platform_stats env p s v)"
    if "handle_truthy (handle_of p s)" for p v
    by (rule emits_mono [OF fetch_platform_stats_emits [of p s v env]])
       (use that in \<open>auto simp: student_event_def\<close>)
  have 1: "emits (student_event s) w w1"
    using step [of CF w] by (simp add: w1_def fetch_codeforces_stats_def emits_refl)
  have 2: "emits (student_event s) w1 w2"
    using step [of LC w1] by (simp add: w2_def fetch_leetcode_stats_def emits_refl)
  have 3: "emits (student_event s) w2 w3"
    using step [of CC w2] by (simp add: w3_def fetch_codechef_stats_def emits_refl)
  have "fetch_student_all_platforms env s w = w3"
    by (simp add: fetch_student_all_platforms_def w1_def w2_def w3_def)
  with emits_trans [OF 1 emits_trans [OF 2 3]] show ?thesis
    by simp
qed




lemma spec_batches_Nil [simp]: "spec_batches n [] = []"
  by (subst spec_batches.simps) simp






subsection \<open>Whole runs\<close>

lemma fetch_all_stats_appends:
  "appends env (if app w then concat (map registered_pairs (students w)) else []) w
     (fetch_all_stats env w)"
  using batch_loop_appends [of env 0 "students w" w]
  by (simp add: fetch_all_stats_def appends_refl)

lemma fetch_student_stats_found:
  assumes "app w" and "find (\<lambda>s. stu_id s = sid) (students w) = Some s"
  shows "fetch_student_stats env sid w = (Inr True, fetch_student_all_platforms env s w)"
  using assms by (simp add: fetch_student_stats_def fetch_student_all_platforms_def Let_def)

lemma fetch_student_stats_missing:
  assumes "app w" and "find (\<lambda>s. stu_id s = sid) (students w) = None"
  shows "fetch_student_stats env sid w = (Inr False, w)"
  using assms by (simp add: fetch_student_stats_def)

lemma fetch_student_stats_no_app:
  assumes "\<not> app w"
  shows "snd (fetch_student_stats env sid w) = w"
  using assms by (simp add: fetch_student_stats_def)

lemma fetch_student_stats_appends:
  "appends env
     (case find (\<lambda>s. stu_id s = sid) (students w) of
        None \<Rightarrow> []
      | Some s \<Rightarrow> if app w then registered_pairs s else [])
     w (snd (fetch_student_stats env sid w))"
proof (cases "app w")
  case False
  then show ?thesis
    by (simp add: fetch_student_stats_no_app appends_refl split: option.splits)
next
  case True
  show ?thesis
  proof (cases "find (\<lambda>s. stu_id s = sid) (students w)")
    case None
    with True show ?thesis
      by (simp add: fetch_student_stats_missing appends_refl)
  next
    case (Some s)
    with True show ?thesis
      by (simp add: fetch_student_stats_found fetch_student_all_platforms_appends)
  qed
qed

lemma appends_new_rows:
  assumes "appends env K w w'"
  shows "stats_snapshots w' = stats_snapshots w @ new_rows w w'"
    and "set (map snapshot_key (new_rows w w')) \<subseteq> set K"
    and "\<forall>r \<in> set (new_rows w w'). success_form r \<or> failed_form r"
    and "ids_increasing (stats_snapshots w) (new_rows w w')"
    and "store_accepts env \<Longrightarrow> map snapshot_key (new_rows w w') = K"
  using assms unfolding appends_def new_rows_def by auto

lemma emits_new_events:
  assumes "emits P w w'"
  shows "events w' = events w @ new_events w w'" and "\<forall>e \<in> set (new_events w w'). P e"
  using assms unfolding emits_def new_events_def by auto

lemma tag_inject [simp]: "tag p = tag q \<longleftrightarrow> p = q"
  by (cases p; cases q) simp_all

lemma set_platform_tags: "set [CF, LC, CC] = UNIV"
proof -
  have "p \<in> set [CF, LC, CC]" for p
    by (cases p) simp_all
  then show ?thesis
    by blast
qed

lemma set_registered_pairs:
  "set (registered_pairs s) = (\<lambda>p. (stu_id s, tag p)) ` {p. handle_truthy (handle_of p s)}"
  unfolding registered_pairs_def set_map set_filter set_platform_tags
  by simp

lemma registered_pairs_iff:
  "(i, t) \<in> set (registered_pairs s) \<longleftrightarrow>
     i = stu_id s \<and> (\<exists>p. t = tag p \<and> handle_truthy (handle_of p s))"
  unfolding set_registered_pairs by auto




lemma fetch_status_stored_row [simp]:
  "fetch_status (stored_row snapshot tbl ts) = fetch_status snapshot"
  "error_message (stored_row snapshot tbl ts) = error_message snapshot"
  "student_id (stored_row snapshot tbl ts) = student_id snapshot"
  "platform (stored_row snapshot tbl ts) = platform snapshot"
  by (simp_all add: stored_row_def)

lemma fetch_status_success_snapshot [simp]:
  "fetch_status (success_snapshot p sid d) = ''success''"
  by (cases p) simp_all

lemma fetch_status_failed_snapshot [simp]:
  "fetch_status (failed_snapshot sid t msg) = ''failed''"
  "error_message (failed_snapshot sid t msg) = Some msg"
  "student_id (failed_snapshot sid t msg) = sid"
  "platform (failed_snapshot sid t msg) = t"
  by (simp_all add: failed_snapshot_def)

lemma new_rows_append [simp]:
  "stats_snapshots w' = stats_snapshots w @ rows \<Longrightarrow> new_rows w w' = rows"
  by (simp add: new_rows_def)

lemma new_events_append [simp]:
  "events w' = events w @ evs \<Longrightarrow> new_events w w' = evs"
  by (simp add: new_events_def)






lemma fetch_student_stats_emits:
  assumes "find (\<lambda>x. stu_id x = sid) (students w) = Some s"
  shows "emits (student_event s) w (snd (fetch_student_stats env sid w))"
proof (cases "app w")
  case True
  with assms show ?thesis
    by (simp add: fetch_student_stats_found fetch_student_all_platforms_emits)
next
  case False
  then show ?thesis
    by (simp add: fetch_student_stats_no_app emits_refl)
qed

lemma set_concat_registered_pairs:
  "(i, t) \<in> set (concat (map registered_pairs sts)) \<longleftrightarrow>
     (\<exists>s \<in> set sts. i = stu_id s \<and> (\<exists>p. t = tag p \<and> handle_truthy (handle_of p s)))"
  by (auto simp: registered_pairs_iff)


lemma attempt_failed_last_rejected:
  assumes "\<not> attempt_succeeds (adapter env (tag p) (handle_of p s) (api_calls w))"
    and "db_commit env (commits w) = CommitFailed e"
  shows "stats_snapshots (attempt_loop env p s [2] w) = stats_snapshots w"
proof -
  have "stats_snapshots (after_failed_attempt env p s 2 msg (called p s w)) = stats_snapshots w"
    for msg
    using assms(2)
    by (simp add: after_failed_attempt_def max_retries_def save_failed_snapshot_def
        add_and_commit_def called_def session_rollback_def)
  with attempt_failed_step [OF assms(1), of 2 "[]"] show ?thesis
    by simp
qed

lemma exhausted_rejected:
  assumes store: "db_commit env (commits w) = CommitFailed e"
    and fails: "\<forall>j<3. \<not> attempt_succeeds (attempt_result env p s w j)"
  shows "stats_snapshots (fetch_platform_stats env p s w) = stats_snapshots w"
proof -
  let ?w2 = "retried p s (retried p s w)"
  have f0: "\<not> attempt_succeeds (adapter env (tag p) (handle_of p s) (api_calls w))"
    and f1: "\<not> attempt_succeeds (adapter env (tag p) (handle_of p s) (api_calls (retried p s w)))"
    and f2: "\<not> attempt_succeeds (adapter env (tag p) (handle_of p s) (api_calls ?w2))"
    using fails [rule_format, of 0] fails [rule_format, of 1] fails [rule_format, of 2]
    by (simp_all add: attempt_result_def numeral_2_eq_2)
  have "db_commit env (commits ?w2) = CommitFailed e"
    using store by simp
  from attempt_failed_last_rejected [OF f2 this]
    attempt_failed_retry [OF f0, of 0 "[1, 2]"] attempt_failed_retry [OF f1, of 1 "[2]"]
  show ?thesis
    by (simp add: fetch_platform_stats_unfold)
qed

lemma save_failed_snapshot_rows:
  "new_rows w (save_failed_snapshot env sid t msg w) =
     (case db_commit env (commits w) of
        Committed ts \<Rightarrow> [stored_row (failed_snapshot sid t msg) (stats_snapshots w) ts]
      | CommitFailed e \<Rightarrow> [])"
  by (simp add: save_failed_snapshot_def add_and_commit_def session_rollback_def
      new_rows_def stored_row_def split: commit_result.splits)

section \<open>The claims\<close>












text \<open>
  C4. A platform for which the student has no registered handle (the column is None
  or empty) is skipped: the orchestration of the student makes no adapter call for
  that platform and appends no snapshot of that platform; a periodic cycle appends no
  snapshot for a (student id, platform) pair when no student of the roster with that
  id has a handle for the platform; an on-demand fetch makes no adapter call for and
  appends no snapshot of a platform its student has no handle for.
\<close>

theorem no_handle_no_snapshot:
  "(\<not> handle_truthy (handle_of p s) \<longrightarrow>
      (\<forall>r \<in> set (new_rows w (fetch_student_all_platforms env s w)). platform r \<noteq> tag p) \<and>
      (\<forall>h. AdapterCall (tag p) h \<notin> set (new_events w (fetch_student_all_platforms env s w)))) \<and>
   ((\<forall>s \<in> set (students w). stu_id s = sid \<longrightarrow> \<not> handle_truthy (handle_of p s)) \<longrightarrow>
      (\<forall>r \<in> set (new_rows w (fetch_all_stats env w)). snapshot_key r \<noteq> (sid, tag p))) \<and>
   ((\<forall>s. find (\<lambda>x. stu_id x = sid) (students w) = Some s \<longrightarrow>
          \<not> handle_truthy (handle_of p s)) \<longrightarrow>
      (\<forall>r \<in> set (new_rows w (snd (fetch_student_stats env sid w))). platform r \<noteq> tag p) \<and>
      (\<forall>h. AdapterCall (tag p) h \<notin> set (new_events w (snd (fetch_student_stats env sid w)))))"
proof (intro conjI impI ballI allI)
  fix r
  assume no: "\<not> handle_truthy (handle_of p s)"
    and r: "r \<in> set (new_rows w (fetch_student_all_platforms env s w))"
  from appends_new_rows(2) [OF fetch_student_all_platforms_appends [of env s w]] r
  have "snapshot_key r \<in> set (registered_pairs s)"
    by auto
  then have "\<exists>q. platform r = tag q \<and> handle_truthy (handle_of q s)"
    by (auto simp: registered_pairs_iff snapshot_key_def)
  with no show "platform r \<noteq> tag p"
    by auto
next
  fix h
  assume no: "\<not> handle_truthy (handle_of p s)"
  show "AdapterCall (tag p) h \<notin> set (new_events w (fetch_student_all_platforms env s w))"
  proof
    assume "AdapterCall (tag p) h \<in> set (new_events w (fetch_student_all_platforms env s w))"
    with emits_new_events(2) [OF fetch_student_all_platforms_emits [of s w env]]
    have "student_event s (AdapterCall (tag p) h)"
      by blast
    with no show False
      by (auto simp: student_event_def)
  qed
next
  fix r
  assume no: "\<forall>s \<in> set (students w). stu_id s = sid \<longrightarrow> \<not> handle_truthy (handle_of p s)"
    and r: "r \<in> set (new_rows w (fetch_all_stats env w))"
  from appends_new_rows(2) [OF fetch_all_stats_appends [of env w]] r
  have "snapshot_key r \<in> set (if app w then concat (map registered_pairs (students w)) else [])"
    by auto
  then have "(student_id r, platform r) \<in> set (concat (map registered_pairs (students w)))"
    by (simp add: snapshot_key_def split: if_splits)
  then obtain s' q where "s' \<in> set (students w)" "snapshot_key r = (stu_id s', tag q)"
    "handle_truthy (handle_of q s')"
    unfolding set_concat_registered_pairs snapshot_key_def by blast
  with no show "snapshot_key r \<noteq> (sid, tag p)"
    by auto
next
  fix r
  assume no: "\<forall>s. find (\<lambda>x. stu_id x = sid) (students w) = Some s \<longrightarrow>
          \<not> handle_truthy (handle_of p s)"
    and r: "r \<in> set (new_rows w (snd (fetch_student_stats env sid w)))"
  from appends_new_rows(2) [OF fetch_student_stats_appends [of env w sid]] r
  have k: "snapshot_key r \<in> set (case find (\<lambda>s. stu_id s = sid) (students w) of
        None \<Rightarrow> [] | Some s \<Rightarrow> if app w then registered_pairs s else [])"
    by auto
  then obtain s' where s': "find (\<lambda>x. stu_id x = sid) (students w) = Some s'"
    "snapshot_key r \<in> set (registered_pairs s')"
    by (cases "find (\<lambda>x. stu_id x = sid) (students w)") (auto split: if_splits)
  then have "\<exists>q. platform r = tag q \<and> handle_truthy (handle_of q s')"
    by (auto simp: registered_pairs_iff snapshot_key_def)
  with no s'(1) show "platform r \<noteq> tag p"
    by auto
next
  fix h
  assume no: "\<forall>s. find (\<lambda>x. stu_id x = sid) (students w) = Some s \<longrightarrow>
          \<not> handle_truthy (handle_of p s)"
  show "AdapterCall (tag p) h \<notin> set (new_events w (snd (fetch_student_stats env sid w)))"
  proof (cases "find (\<lambda>x. stu_id x = sid) (students w)")
    case None
    then have "snd (fetch_student_stats env sid w) = w"
      by (cases "app w") (simp_all add: fetch_student_stats_missing fetch_student_stats_no_app)
    then show ?thesis
      by (simp add: new_events_def)
  next
    case (Some s')
    show ?thesis
    proof
      assume "AdapterCall (tag p) h \<in> set (new_events w (snd (fetch_student_stats env sid w)))"
      with emits_new_events(2) [OF fetch_student_stats_emits [OF Some, where env = env]]
      have "student_event s' (AdapterCall (tag p) h)"
        by blast
      with no Some show False
        by (auto simp: student_event_def)
    qed
  qed
qed

lemma ex_student_ok:
  "fetch_student_all_platforms ex_env_ok ex_student ex_world =
     ex_world\<lparr>stats_snapshots := [ex_cf_row],
       events := [AdapterCall ''CF'' (Some ''tourist'')],
       api_calls := 1, commits := 1\<rparr>"
  by (simp add: fetch_student_all_platforms_def fetch_codeforces_stats_def
      fetch_platform_stats_unfold ex_env_ok_def ex_student_def ex_world_def ex_payload_cf_def
      call_adapter_def add_and_commit_def next_snap_id_def dict_get_def ex_cf_row_def)

theorem no_handle_no_snapshot_witness:
  "\<not> handle_truthy (handle_of LC ex_student) \<and>
   new_rows ex_world (fetch_student_all_platforms ex_env_ok ex_student ex_world) = [ex_cf_row] \<and>
   platform ex_cf_row \<noteq> tag LC \<and>
   new_events ex_world (fetch_student_all_platforms ex_env_ok ex_student ex_world) =
     [AdapterCall ''CF'' (Some ''tourist'')] \<and>
   AdapterCall (tag LC) None
     \<notin> set (new_events ex_world (fetch_student_all_platforms ex_env_ok ex_student ex_world))"
proof -
  have no: "\<not> handle_truthy (handle_of LC ex_student)"
    by (simp add: ex_student_def)
  have rows: "new_rows ex_world (fetch_student_all_platforms ex_env_ok ex_student ex_world) = [ex_cf_row]"
    by (simp add: ex_student_ok new_rows_def) (simp add: ex_world_def)
  have evs: "new_events ex_world (fetch_student_all_platforms ex_env_ok ex_student ex_world) =
     [AdapterCall ''CF'' (Some ''tourist'')]"
    by (simp add: ex_student_ok new_events_def) (simp add: ex_world_def)
  from rows have mem: "ex_cf_row \<in> set (new_rows ex_world
      (fetch_student_all_platforms ex_env_ok ex_student ex_world))"
    by simp
  from no_handle_no_snapshot [of LC ex_student ex_world ex_env_ok] no mem
  have "platform ex_cf_row \<noteq> tag LC"
    by blast
  moreover from no_handle_no_snapshot [of LC ex_student ex_world ex_env_ok] no
  have "AdapterCall (tag LC) None
     \<notin> set (new_events ex_world (fetch_student_all_platforms ex_env_ok ex_student ex_world))"
    by blast
  ultimately show ?thesis
    using no rows evs by blast
qed

text \<open>
  C7. For every student and platform, the latest stats returned by the read path are
  the snapshot of that (student, platform) pair with the maximum capture timestamp:
  the result is absent exactly when the pair has no snapshot, and otherwise it is a row
  of the pair whose timestamp is not below that of any row of the pair.
\<close>

theorem get_latest_stats_max_timestamp:
  "(get_latest_stats tbl s p = None \<longleftrightarrow>
      (\<forall>r \<in> set tbl. \<not> (student_id r = stu_id s \<and> platform r = p))) \<and>
   (\<forall>x. get_latest_stats tbl s p = Some x \<longrightarrow>
      x \<in> set tbl \<and> student_id x = stu_id s \<and> platform x = p \<and>
      (\<forall>r \<in> set tbl. student_id r = stu_id s \<and> platform r = p \<longrightarrow>
         timestamp r \<le> timestamp x))"
  using get_latest_stats_None [of tbl s p] get_latest_stats_Some [of tbl s p]
  by blast

theorem get_latest_stats_max_timestamp_witness:
  "get_latest_stats ex_table ex_student ''CF'' = Some (ex_row 2 7 ''CF'' (739921 * us_per_day)) \<and>
   ex_row 2 7 ''CF'' (739921 * us_per_day) \<in> set ex_table \<and>
   timestamp (ex_row 1 7 ''CF'' (739920 * us_per_day))
     \<le> timestamp (ex_row 2 7 ''CF'' (739921 * us_per_day)) \<and>
   get_latest_stats ex_table ex_student ''CC'' = None"
proof -
  have a: "get_latest_stats ex_table ex_student ''CF'' = Some (ex_row 2 7 ''CF'' (739921 * us_per_day))"
    by (simp add: get_latest_stats_def order_by_timestamp_desc_def stats_snapshots_of_def
        first_row_def ex_table_def ex_student_def ex_row_def us_per_day_def)
  have b: "ex_row 1 7 ''CF'' (739920 * us_per_day) \<in> set ex_table"
    by (simp add: ex_table_def)
  have c: "student_id (ex_row 1 7 ''CF'' (739920 * us_per_day)) = stu_id ex_student \<and>
           platform (ex_row 1 7 ''CF'' (739920 * us_per_day)) = ''CF''"
    by (simp add: ex_row_def ex_student_def)
  have d: "\<forall>r \<in> set ex_table. \<not> (student_id r = stu_id ex_student \<and> platform r = ''CC'')"
    by (simp add: ex_table_def ex_row_def ex_student_def)
  from get_latest_stats_max_timestamp [of ex_table ex_student "''CF''"] a b c
  have "ex_row 2 7 ''CF'' (739921 * us_per_day) \<in> set ex_table \<and>
        timestamp (ex_row 1 7 ''CF'' (739920 * us_per_day))
          \<le> timestamp (ex_row 2 7 ''CF'' (739921 * us_per_day))"
    by blast
  moreover from get_latest_stats_max_timestamp [of ex_table ex_student "''CC''"] d
  have "get_latest_stats ex_table ex_student ''CC'' = None"
    by blast
  ultimately show ?thesis
    using a by simp
qed

text \<open>
  C8 (as stated: for every requested day-window history retrieval returns the rows of
  the window). It fails for a window that reaches before year 1: with
  \<open>days = 1000000\<close> the subtraction \<^verbatim>\<open>datetime.utcnow() - timedelta(days=days)\<close> raises
  OverflowError and nothing is returned.
\<close>

theorem get_stats_history_overflow_counterexample:
  "get_stats_history ex_table ex_now ex_student ''CF'' 1000000
     = Inl (PyExc OverflowError ''date value out of range'')"
  by (simp add: get_stats_history_def timedelta_days_def datetime_sub_def ex_now_def
      us_per_day_def datetime_max_def)

text \<open>
  C8 (amended). For every student, platform and day-window whose cutoff
  \<open>now - days\<close> is a representable datetime (the magnitude of \<open>days\<close> is at most
  999999999 and the cutoff lies in years 1 to 9999), history retrieval returns exactly
  the snapshots of that (student, platform) pair whose timestamp is not older than the
  cutoff, each as often as it is stored, in ascending timestamp order.
\<close>

theorem get_stats_history_window:
  assumes "\<bar>days\<bar> \<le> 999999999"
    and "0 \<le> now - days * us_per_day"
    and "now - days * us_per_day \<le> datetime_max"
  shows "\<exists>rows. get_stats_history tbl now s p days = Inr rows \<and>
           sorted (map timestamp rows) \<and>
           mset rows = mset (filter (\<lambda>r. student_id r = stu_id s \<and> platform r = p \<and>
                                      now - days * us_per_day \<le> timestamp r) tbl)"
proof -
  let ?rows = "sort_key timestamp
                 (filter (\<lambda>r. platform r = p \<and> now - days * us_per_day \<le> timestamp r)
                    (stats_snapshots_of s tbl))"
  have "get_stats_history tbl now s p days = Inr ?rows"
    using assms by (rule get_stats_history_rows)
  moreover have "sorted (map timestamp ?rows)"
    by (rule sorted_sort_key)
  moreover have "mset ?rows = mset (filter (\<lambda>r. student_id r = stu_id s \<and> platform r = p \<and>
                                      now - days * us_per_day \<le> timestamp r) tbl)"
    by (simp add: stats_snapshots_of_def conj_commute conj_left_commute cong: conj_cong)
  ultimately show ?thesis
    by blast
qed

theorem get_stats_history_window_witness:
  "get_stats_history ex_table ex_now ex_student ''CF'' 30
     = Inr [ex_row 1 7 ''CF'' (739920 * us_per_day), ex_row 2 7 ''CF'' (739921 * us_per_day)] \<and>
   (\<exists>rows. get_stats_history ex_table ex_now ex_student ''CF'' 30 = Inr rows \<and>
      sorted (map timestamp rows) \<and>
      mset rows = mset (filter (\<lambda>r. student_id r = stu_id ex_student \<and> platform r = ''CF'' \<and>
                                 ex_now - 30 * us_per_day \<le> timestamp r) ex_table))"
proof -
  have h1: "\<bar>30 :: int\<bar> \<le> 999999999"
    by simp
  have h2: "0 \<le> ex_now - 30 * us_per_day"
    by (simp add: ex_now_def us_per_day_def)
  have h3: "ex_now - 30 * us_per_day \<le> datetime_max"
    by (simp add: ex_now_def us_per_day_def datetime_max_def)
  have "get_stats_history ex_table ex_now ex_student ''CF'' 30
          = Inr [ex_row 1 7 ''CF'' (739920 * us_per_day), ex_row 2 7 ''CF'' (739921 * us_per_day)]"
    by (simp add: get_stats_history_def timedelta_days_def datetime_sub_def ex_now_def
        us_per_day_def datetime_max_def order_by_timestamp_asc_def stats_snapshots_of_def
        ex_table_def ex_student_def ex_row_def)
  with get_stats_history_window [OF h1 h2 h3, of ex_table ex_student "''CF''"]
  show ?thesis
    by simp
qed

text \<open>
  C9. The row that \<^verbatim>\<open>_save_failed_snapshot\<close> stores has status 'failed', solved 0, no
  rating, no maximum rating, no difficulty counts, and keeps the error text; it is the
  only row it can append. When the three attempts of a retry loop are exhausted, the
  loop appends that row with the error text of the last attempt (and nothing else; the
  row is missing only if the store rejects it). Every row a retry loop appends is
  either a success row or of this failed shape.
\<close>

theorem failed_snapshot_shape:
  "new_rows w (save_failed_snapshot env sid t msg w) =
     (case db_commit env (commits w) of
        Committed ts \<Rightarrow> [stored_row (failed_snapshot sid t msg) (stats_snapshots w) ts]
      | CommitFailed e \<Rightarrow> []) \<and>
   student_id (stored_row (failed_snapshot sid t msg) tbl ts) = sid \<and>
   platform (stored_row (failed_snapshot sid t msg) tbl ts) = t \<and>
   fetch_status (stored_row (failed_snapshot sid t msg) tbl ts) = ''failed'' \<and>
   solved (stored_row (failed_snapshot sid t msg) tbl ts) = PInt 0 \<and>
   rating (stored_row (failed_snapshot sid t msg) tbl ts) = PNone \<and>
   max_rating (stored_row (failed_snapshot sid t msg) tbl ts) = PNone \<and>
   easy (stored_row (failed_snapshot sid t msg) tbl ts) = PNone \<and>
   medium (stored_row (failed_snapshot sid t msg) tbl ts) = PNone \<and>
   hard (stored_row (failed_snapshot sid t msg) tbl ts) = PNone \<and>
   error_message (stored_row (failed_snapshot sid t msg) tbl ts) = Some msg \<and>
   ((\<forall>j<3. \<not> attempt_succeeds (attempt_result env p s w j)) \<longrightarrow>
      new_rows w (fetch_platform_stats env p s w) =
        (case db_commit env (commits w) of
           Committed ts \<Rightarrow>
             [stored_row
                (failed_snapshot (stu_id s) (tag p) (failure_text (attempt_result env p s w 2)))
                (stats_snapshots w) ts]
         | CommitFailed e \<Rightarrow> [])) \<and>
   (\<forall>r \<in> set (new_rows w (fetch_platform_stats env p s w)).
      fetch_status r = ''success'' \<and> error_message r = None \<or>
      fetch_status r = ''failed'' \<and> solved r = PInt 0 \<and> rating r = PNone \<and>
      max_rating r = PNone \<and> easy r = PNone \<and> medium r = PNone \<and> hard r = PNone \<and>
      error_message r \<noteq> None)"
proof -
  have a: "new_rows w (save_failed_snapshot env sid t msg w) =
     (case db_commit env (commits w) of
        Committed ts \<Rightarrow> [stored_row (failed_snapshot sid t msg) (stats_snapshots w) ts]
      | CommitFailed e \<Rightarrow> [])"
    by (rule save_failed_snapshot_rows)
  have b: "student_id (stored_row (failed_snapshot sid t msg) tbl ts) = sid \<and>
   platform (stored_row (failed_snapshot sid t msg) tbl ts) = t \<and>
   fetch_status (stored_row (failed_snapshot sid t msg) tbl ts) = ''failed'' \<and>
   solved (stored_row (failed_snapshot sid t msg) tbl ts) = PInt 0 \<and>
   rating (stored_row (failed_snapshot sid t msg) tbl ts) = PNone \<and>
   max_rating (stored_row (failed_snapshot sid t msg) tbl ts) = PNone \<and>
   easy (stored_row (failed_snapshot sid t msg) tbl ts) = PNone \<and>
   medium (stored_row (failed_snapshot sid t msg) tbl ts) = PNone \<and>
   hard (stored_row (failed_snapshot sid t msg) tbl ts) = PNone \<and>
   error_message (stored_row (failed_snapshot sid t msg) tbl ts) = Some msg"
    by (simp add: stored_row_def failed_snapshot_def)
  have c: "new_rows w (fetch_platform_stats env p s w) =
        (case db_commit env (commits w) of
           Committed ts \<Rightarrow>
             [stored_row
                (failed_snapshot (stu_id s) (tag p) (failure_text (attempt_result env p s w 2)))
                (stats_snapshots w) ts]
         | CommitFailed e \<Rightarrow> [])"
    if fails: "\<forall>j<3. \<not> attempt_succeeds (attempt_result env p s w j)"
  proof (cases "db_commit env (commits w)")
    case (Committed ts)
    from exhausted_stored [OF Committed fails] Committed show ?thesis
      by simp
  next
    case (CommitFailed e)
    from exhausted_rejected [OF CommitFailed fails] CommitFailed show ?thesis
      by (simp add: new_rows_def)
  qed
  have d: "\<forall>r \<in> set (new_rows w (fetch_platform_stats env p s w)).
      fetch_status r = ''success'' \<and> error_message r = None \<or>
      fetch_status r = ''failed'' \<and> solved r = PInt 0 \<and> rating r = PNone \<and>
      max_rating r = PNone \<and> easy r = PNone \<and> medium r = PNone \<and> hard r = PNone \<and>
      error_message r \<noteq> None"
    using appends_new_rows(3) [OF fetch_platform_stats_appends [of env s p w]]
    by (simp add: success_form_def failed_form_def)
  from a b c d show ?thesis
    by blast
qed

theorem failed_snapshot_shape_witness:
  "new_rows ex_world (fetch_platform_stats ex_env_absent CF ex_student ex_world) = [ex_failed_row] \<and>
   fetch_status ex_failed_row = ''failed'' \<and> solved ex_failed_row = PInt 0 \<and>
   rating ex_failed_row = PNone \<and> error_message ex_failed_row = Some ''Failed to fetch data''"
proof -
  have fails: "\<forall>j<3. \<not> attempt_succeeds (attempt_result ex_env_absent CF ex_student ex_world j)"
    by (simp add: attempt_result_def ex_env_absent_def)
  have store: "db_commit ex_env_absent (commits ex_world) = Committed ex_now"
    by (simp add: ex_env_absent_def ex_world_def)
  have row: "stored_row
        (failed_snapshot (stu_id ex_student) (tag CF)
           (failure_text (attempt_result ex_env_absent CF ex_student ex_world 2)))
        (stats_snapshots ex_world) ex_now = ex_failed_row"
    by (simp add: stored_row_def failed_snapshot_def ex_failed_row_def ex_student_def
        ex_world_def next_snap_id_def attempt_result_def ex_env_absent_def)
  from failed_snapshot_shape [of ex_world ex_env_absent 7 "''CF''" "''Failed to fetch data''"
      "[]" ex_now CF ex_student] fails
  have "new_rows ex_world (fetch_platform_stats ex_env_absent CF ex_student ex_world) =
        (case db_commit ex_env_absent (commits ex_world) of
           Committed ts \<Rightarrow>
             [stored_row
                (failed_snapshot (stu_id ex_student) (tag CF)
                   (failure_text (attempt_result ex_env_absent CF ex_student ex_world 2)))
                (stats_snapshots ex_world) ts]
         | CommitFailed e \<Rightarrow> [])"
    by blast
  with store row have "new_rows ex_world (fetch_platform_stats ex_env_absent CF ex_student ex_world) = [ex_failed_row]"
    by simp
  then show ?thesis
    by (simp add: ex_failed_row_def)
qed

end
